theory Spec2Isabelle
  imports Main "HOL-Library.Word"
begin

unbundle bit_operations_syntax

section \<open>Machine types and constants (include/d17b.h)\<close>

text \<open>
  The C types are fixed-width words: \<open>uint8_t\<close>, \<open>uint32_t\<close> and \<open>uint64_t\<close> wrap
  around, conversions between them are \<open>ucast\<close>. Values of type \<open>int32_t\<close>,
  \<open>int64_t\<close> and the promoted \<open>int\<close> are modelled as \<open>int\<close>: every such value in
  the emulator comes from a 23-bit magnitude (sums stay below \<open>2 ^ 24\<close>, products below
  \<open>2 ^ 46\<close>), so no signed overflow can occur. A conversion to \<open>int16_t\<close> is written
  out as \<open>to_int16\<close>; a conversion to an unsigned type is \<open>word_of_int\<close>.
\<close>

type_synonym uint8_t = "8 word"
type_synonym uint32_t = "32 word"
type_synonym uint64_t = "64 word"
type_synonym int16_t = "16 word"

abbreviation (input) WORD_MASK :: "'a::numeral" where "WORD_MASK \<equiv> 0x00FFFFFF"
abbreviation (input) SIGN_BIT :: "'a::numeral" where "SIGN_BIT \<equiv> 0x00800000"
abbreviation (input) MAGNITUDE_MASK :: "'a::numeral" where "MAGNITUDE_MASK \<equiv> 0x007FFFFF"

abbreviation (input) CHANNELS :: "'a::numeral" where "CHANNELS \<equiv> 47"
abbreviation (input) SECTORS :: "'a::numeral" where "SECTORS \<equiv> 128"

abbreviation (input) F_LOOP_SIZE :: nat where "F_LOOP_SIZE \<equiv> 4"
abbreviation (input) E_LOOP_SIZE :: nat where "E_LOOP_SIZE \<equiv> 8"
abbreviation (input) H_LOOP_SIZE :: nat where "H_LOOP_SIZE \<equiv> 16"
abbreviation (input) V_LOOP_SIZE :: nat where "V_LOOP_SIZE \<equiv> 4"
abbreviation (input) R_LOOP_SIZE :: nat where "R_LOOP_SIZE \<equiv> 4"

abbreviation (input) CHAN_F_LOOP :: uint8_t where "CHAN_F_LOOP \<equiv> 0x2A"
abbreviation (input) CHAN_H_LOOP :: uint8_t where "CHAN_H_LOOP \<equiv> 0x2C"
abbreviation (input) CHAN_E_LOOP :: uint8_t where "CHAN_E_LOOP \<equiv> 0x2E"
abbreviation (input) CHAN_U_LOOP :: uint8_t where "CHAN_U_LOOP \<equiv> 0x30"
abbreviation (input) CHAN_L_REG :: uint8_t where "CHAN_L_REG \<equiv> 0x34"
abbreviation (input) CHAN_V_LOOP :: uint8_t where "CHAN_V_LOOP \<equiv> 0x38"
abbreviation (input) CHAN_R_LOOP :: uint8_t where "CHAN_R_LOOP \<equiv> 0x3A"

text \<open>The instruction field macros, on the 32-bit instruction word.\<close>

definition GET_OPCODE :: "uint32_t \<Rightarrow> uint32_t" where
  "GET_OPCODE w = drop_bit 20 w AND 0x0F"

definition GET_FLAG :: "uint32_t \<Rightarrow> uint32_t" where
  "GET_FLAG w = drop_bit 19 w AND 0x01"

definition GET_SP :: "uint32_t \<Rightarrow> uint32_t" where
  "GET_SP w = drop_bit 15 w AND 0x0F"

definition GET_CHANNEL :: "uint32_t \<Rightarrow> uint32_t" where
  "GET_CHANNEL w = drop_bit 9 w AND 0x3F"

definition GET_SECTOR :: "uint32_t \<Rightarrow> uint32_t" where
  "GET_SECTOR w = drop_bit 2 w AND 0x7F"

definition GET_FLAG_CODE :: "uint32_t \<Rightarrow> uint32_t" where
  "GET_FLAG_CODE w = w AND 0x07"

text \<open>The primary opcodes of \<open>d17b_opcode_t\<close>.\<close>

abbreviation (input) OP_SHIFT :: uint8_t where "OP_SHIFT \<equiv> 0x0"
abbreviation (input) OP_SCL :: uint8_t where "OP_SCL \<equiv> 0x1"
abbreviation (input) OP_TMI_TZE :: uint8_t where "OP_TMI_TZE \<equiv> 0x2"
abbreviation (input) OP_SMP :: uint8_t where "OP_SMP \<equiv> 0x4"
abbreviation (input) OP_MPY :: uint8_t where "OP_MPY \<equiv> 0x5"
abbreviation (input) OP_TMI :: uint8_t where "OP_TMI \<equiv> 0x6"
abbreviation (input) OP_DIV_MPM :: uint8_t where "OP_DIV_MPM \<equiv> 0x7"
abbreviation (input) OP_SPECIAL :: uint8_t where "OP_SPECIAL \<equiv> 0x8"
abbreviation (input) OP_CLA :: uint8_t where "OP_CLA \<equiv> 0x9"
abbreviation (input) OP_TRA :: uint8_t where "OP_TRA \<equiv> 0xA"
abbreviation (input) OP_STO :: uint8_t where "OP_STO \<equiv> 0xB"
abbreviation (input) OP_SAD :: uint8_t where "OP_SAD \<equiv> 0xC"
abbreviation (input) OP_ADD :: uint8_t where "OP_ADD \<equiv> 0xD"
abbreviation (input) OP_SSU :: uint8_t where "OP_SSU \<equiv> 0xE"
abbreviation (input) OP_SUB :: uint8_t where "OP_SUB \<equiv> 0xF"

section \<open>The CPU state (\<open>d17b_cpu_t\<close>)\<close>

text \<open>
  Arrays are lists; every index the code uses is masked below the array's size. The
  field \<open>error\<close> of the C struct is named \<open>error_latch\<close> here.
\<close>

record d17b_cpu_t =
  A :: uint32_t
  L :: uint32_t
  N :: uint32_t
  I :: uint32_t
  P :: uint8_t
  U :: uint32_t
  F :: "uint32_t list"
  E :: "uint32_t list"
  H :: "uint32_t list"
  V :: "uint32_t list"
  R :: "uint32_t list"
  memory :: "uint32_t list list"
  current_sector :: uint32_t
  cycle_count :: uint64_t
  halted :: bool
  error_latch :: bool
  d37c_mode :: bool
  discrete_in_a :: uint32_t
  discrete_in_b :: uint32_t
  discrete_out_a :: uint32_t
  voltage_out :: "int16_t list"
  binary_out :: "uint8_t list"
  detector :: bool
  fine_countdown :: uint32_t
  countdown_enabled :: bool

section \<open>Initialisation\<close>

text \<open>The result of \<open>memset(cpu, 0, sizeof(d17b_cpu_t))\<close>.\<close>

definition memset_zero :: d17b_cpu_t where
  "memset_zero =
    \<lparr> A = 0, L = 0, N = 0, I = 0, P = 0, U = 0,
      F = replicate F_LOOP_SIZE 0, E = replicate E_LOOP_SIZE 0,
      H = replicate H_LOOP_SIZE 0, V = replicate V_LOOP_SIZE 0,
      R = replicate R_LOOP_SIZE 0,
      memory = replicate CHANNELS (replicate SECTORS 0),
      current_sector = 0, cycle_count = 0,
      halted = False, error_latch = False, d37c_mode = False,
      discrete_in_a = 0, discrete_in_b = 0, discrete_out_a = 0,
      voltage_out = replicate 4 0, binary_out = replicate 4 0,
      detector = False, fine_countdown = 0, countdown_enabled = False \<rparr>"

definition d17b_reset :: "d17b_cpu_t \<Rightarrow> d17b_cpu_t" where
  "d17b_reset cpu =
    cpu\<lparr> A := 0, L := 0, N := 0, I := 0, P := 0,
         U := 0,
         F := replicate F_LOOP_SIZE 0, E := replicate E_LOOP_SIZE 0,
         H := replicate H_LOOP_SIZE 0, V := replicate V_LOOP_SIZE 0,
         R := replicate R_LOOP_SIZE 0,
         current_sector := 0, cycle_count := 0,
         halted := False, error_latch := False, d37c_mode := True,
         discrete_in_a := 0, discrete_in_b := 0, discrete_out_a := 0,
         voltage_out := replicate 4 0, binary_out := replicate 4 0,
         detector := False, fine_countdown := 0, countdown_enabled := False \<rparr>"

definition d17b_init :: "d17b_cpu_t \<Rightarrow> d17b_cpu_t" where
  "d17b_init cpu = d17b_reset memset_zero"

section \<open>Memory access\<close>

definition d17b_read :: "d17b_cpu_t \<Rightarrow> uint8_t \<Rightarrow> uint8_t \<Rightarrow> uint32_t" where
  "d17b_read cpu channel sector =
    (if channel = CHAN_U_LOOP then U cpu
     else if channel = CHAN_L_REG then L cpu
     else if channel = CHAN_F_LOOP then F cpu ! unat (sector AND 0x03)
     else if channel = CHAN_E_LOOP then E cpu ! unat (sector AND 0x07)
     else if channel = CHAN_H_LOOP then H cpu ! unat (sector AND 0x0F)
     else if channel = CHAN_V_LOOP then V cpu ! unat (sector AND 0x03)
     else if channel = CHAN_R_LOOP then R cpu ! unat (sector AND 0x03)
     else if channel < CHANNELS \<and> sector < SECTORS
       then memory cpu ! unat channel ! unat sector
     else 0)"

definition d17b_write :: "d17b_cpu_t \<Rightarrow> uint8_t \<Rightarrow> uint8_t \<Rightarrow> uint32_t \<Rightarrow> d17b_cpu_t" where
  "d17b_write cpu channel sector value0 =
    (let val = value0 AND WORD_MASK in
     if channel = CHAN_U_LOOP then cpu\<lparr>U := val\<rparr>
     else if channel = CHAN_L_REG then cpu\<lparr>L := val\<rparr>
     else if channel = CHAN_F_LOOP then cpu\<lparr>F := (F cpu)[unat (sector AND 0x03) := val]\<rparr>
     else if channel = CHAN_E_LOOP then cpu\<lparr>E := (E cpu)[unat (sector AND 0x07) := val]\<rparr>
     else if channel = CHAN_H_LOOP then cpu\<lparr>H := (H cpu)[unat (sector AND 0x0F) := val]\<rparr>
     else if channel = CHAN_V_LOOP then cpu\<lparr>V := (V cpu)[unat (sector AND 0x03) := val]\<rparr>
     else if channel = CHAN_R_LOOP then cpu\<lparr>R := (R cpu)[unat (sector AND 0x03) := val]\<rparr>
     else if channel < CHANNELS \<and> sector < SECTORS
       then cpu\<lparr>memory := (memory cpu)
              [unat channel := (memory cpu ! unat channel)[unat sector := val]]\<rparr>
     else cpu)"

section \<open>Sign-magnitude arithmetic\<close>

definition to_signed :: "uint32_t \<Rightarrow> int" where
  "to_signed val =
    (if val AND SIGN_BIT \<noteq> 0 then - uint (val AND MAGNITUDE_MASK)
     else uint (val AND MAGNITUDE_MASK))"

definition from_signed :: "int \<Rightarrow> uint32_t" where
  "from_signed val =
    (if val < 0 then word_of_int (SIGN_BIT OR ((- val) AND MAGNITUDE_MASK))
     else word_of_int (val AND MAGNITUDE_MASK))"

definition d17b_add_24bit :: "uint32_t \<Rightarrow> uint32_t \<Rightarrow> uint32_t" where
  "d17b_add_24bit a b =
    (let sa = to_signed a;
         sb = to_signed b;
         result = sa + sb;
         result = (if result > MAGNITUDE_MASK then MAGNITUDE_MASK
                   else if result < - MAGNITUDE_MASK then - MAGNITUDE_MASK
                   else result)
     in from_signed result)"

definition d17b_sub_24bit :: "uint32_t \<Rightarrow> uint32_t \<Rightarrow> uint32_t" where
  "d17b_sub_24bit a b =
    (let sa = to_signed a;
         sb = to_signed b;
         result = sa - sb;
         result = (if result > MAGNITUDE_MASK then MAGNITUDE_MASK
                   else if result < - MAGNITUDE_MASK then - MAGNITUDE_MASK
                   else result)
     in from_signed result)"

definition d17b_complement :: "uint32_t \<Rightarrow> uint32_t" where
  "d17b_complement val = val XOR SIGN_BIT"

text \<open>
  In the split branch \<open>(a >> 14) & 0x3FF\<close> reads bits 23..14 of the two's complement
  pattern of \<open>a\<close>; \<open>drop_bit\<close> on \<open>int\<close> is the arithmetic shift, and the mask makes
  the result the same under a logical shift.
\<close>

definition d17b_multiply :: "d17b_cpu_t \<Rightarrow> uint32_t \<Rightarrow> bool \<Rightarrow> d17b_cpu_t" where
  "d17b_multiply cpu operand split =
    (let a = to_signed (A cpu);
         b = to_signed operand;
         a = (if split
              then (let a1 = drop_bit 14 a AND 0x3FF
                    in if A cpu AND SIGN_BIT \<noteq> 0 then - a1 else a1)
              else a);
         b = (if split
              then (let b1 = drop_bit 14 b AND 0x3FF
                    in if operand AND SIGN_BIT \<noteq> 0 then - b1 else b1)
              else b);
         product = a * b
     in if product < 0
        then (let product = - product
              in cpu\<lparr>A := word_of_int (SIGN_BIT OR (drop_bit 23 product AND MAGNITUDE_MASK)),
                     L := word_of_int (product AND MAGNITUDE_MASK)\<rparr>)
        else cpu\<lparr>A := word_of_int (drop_bit 23 product AND MAGNITUDE_MASK),
                 L := word_of_int (product AND MAGNITUDE_MASK)\<rparr>)"

definition d17b_divide :: "d17b_cpu_t \<Rightarrow> uint32_t \<Rightarrow> d17b_cpu_t" where
  "d17b_divide cpu divisor =
    (if divisor AND MAGNITUDE_MASK = 0 then cpu\<lparr>error_latch := True\<rparr>
     else
      (let dividend_neg = (A cpu AND SIGN_BIT \<noteq> 0);
           divisor_neg = (divisor AND SIGN_BIT \<noteq> 0);
           quotient_neg = (dividend_neg \<noteq> divisor_neg);
           dividend = (push_bit 23 (ucast (A cpu AND MAGNITUDE_MASK) :: uint64_t))
                        OR ucast (L cpu AND MAGNITUDE_MASK);
           div_mag = divisor AND MAGNITUDE_MASK;
           quotient = dividend div ucast div_mag;
           remainder = dividend mod ucast div_mag;
           cpu1 = (if quotient > MAGNITUDE_MASK then cpu\<lparr>error_latch := True\<rparr> else cpu);
           quotient = (if quotient > MAGNITUDE_MASK then MAGNITUDE_MASK else quotient);
           cpu2 = cpu1\<lparr>A := ucast quotient AND MAGNITUDE_MASK\<rparr>;
           cpu3 = (if quotient_neg \<and> quotient \<noteq> 0
                   then cpu2\<lparr>A := A cpu2 OR SIGN_BIT\<rparr> else cpu2);
           cpu4 = cpu3\<lparr>L := ucast remainder AND MAGNITUDE_MASK\<rparr>
       in if dividend_neg \<and> remainder \<noteq> 0
          then cpu4\<lparr>L := L cpu4 OR SIGN_BIT\<rparr> else cpu4))"

section \<open>Flag store\<close>

definition d17b_flag_store :: "d17b_cpu_t \<Rightarrow> uint8_t \<Rightarrow> uint32_t \<Rightarrow> d17b_cpu_t" where
  "d17b_flag_store cpu flag_code operand_sector =
    (let val = A cpu in
     if flag_code = 0x00 then cpu
     else if flag_code = 0x02
       then cpu\<lparr>F := (F cpu)[unat (operand_sector AND 0x03) := val]\<rparr>
     else if flag_code = 0x04 then cpu
     else if flag_code = 0x06
       then d17b_write cpu 0x28 (ucast ((operand_sector - 2) AND 0x7F)) val
     else if flag_code = 0x08
       then cpu\<lparr>E := (E cpu)[unat (operand_sector AND 0x07) := val]\<rparr>
     else if flag_code = 0x0A then cpu\<lparr>L := val\<rparr>
     else if flag_code = 0x0C
       then cpu\<lparr>H := (H cpu)[unat (operand_sector AND 0x0F) := val]\<rparr>
     else if flag_code = 0x0E then cpu\<lparr>U := val\<rparr>
     else cpu)"

section \<open>Instruction execution\<close>

definition d17b_exec_arithmetic :: "d17b_cpu_t \<Rightarrow> uint32_t \<Rightarrow> d17b_cpu_t" where
  "d17b_exec_arithmetic cpu0 instr =
    (let opcode = (ucast (GET_OPCODE instr) :: uint8_t);
         channel = (ucast (GET_CHANNEL instr) :: uint8_t);
         sector = (ucast (GET_SECTOR instr) :: uint8_t);
         operand = d17b_read cpu0 channel sector;
         cpu = (if GET_FLAG instr \<noteq> 0
                then d17b_flag_store cpu0 (ucast (GET_FLAG_CODE instr)) (ucast sector)
                else cpu0)
     in
     if opcode = OP_CLA then cpu\<lparr>A := operand\<rparr>
     else if opcode = OP_ADD then cpu\<lparr>A := d17b_add_24bit (A cpu) operand\<rparr>
     else if opcode = OP_SUB then cpu\<lparr>A := d17b_sub_24bit (A cpu) operand\<rparr>
     else if opcode = OP_SAD then
       (let a_hi = drop_bit 12 (A cpu) AND 0xFFF;
            a_lo = A cpu AND 0xFFF;
            o_hi = drop_bit 12 operand AND 0xFFF;
            o_lo = operand AND 0xFFF
        in cpu\<lparr>A := (push_bit 12 (a_hi + o_hi) OR ((a_lo + o_lo) AND 0xFFF)) AND WORD_MASK\<rparr>)
     else if opcode = OP_SSU then
       (let a_hi = drop_bit 12 (A cpu) AND 0xFFF;
            a_lo = A cpu AND 0xFFF;
            o_hi = drop_bit 12 operand AND 0xFFF;
            o_lo = operand AND 0xFFF
        in cpu\<lparr>A := (push_bit 12 (a_hi - o_hi) OR ((a_lo - o_lo) AND 0xFFF)) AND WORD_MASK\<rparr>)
     else if opcode = OP_MPY then d17b_multiply cpu operand False
     else if opcode = OP_SMP then d17b_multiply cpu operand True
     else if opcode = OP_DIV_MPM then
       (if d37c_mode cpu then d17b_divide cpu operand
        else (let abs_a = A cpu AND MAGNITUDE_MASK;
                  abs_op = operand AND MAGNITUDE_MASK
              in d17b_multiply (cpu\<lparr>A := abs_a\<rparr>) abs_op False))
     else if opcode = OP_STO then d17b_write cpu channel sector (A cpu)
     else cpu)"

definition d17b_exec_shift :: "d17b_cpu_t \<Rightarrow> uint32_t \<Rightarrow> d17b_cpu_t" where
  "d17b_exec_shift cpu instr =
    (let sector = (ucast (GET_SECTOR instr) :: uint8_t);
         sub_op = drop_bit 3 sector AND 0x1F;
         shift_count = sector AND 0x07;
         shift_count = (if shift_count = 0 then 8 else shift_count);
         n = unat shift_count
     in
     if sub_op = 0x08 then
       (let hi = drop_bit 12 (A cpu) AND 0xFFF;
            lo = A cpu AND 0xFFF;
            hi = push_bit n hi AND 0xFFF;
            lo = push_bit n lo AND 0xFFF
        in cpu\<lparr>A := push_bit 12 hi OR lo\<rparr>)
     else if sub_op = 0x09 then cpu\<lparr>A := push_bit n (A cpu) AND WORD_MASK\<rparr>
     else if sub_op = 0x0A then
       (let hi = drop_bit 12 (A cpu) AND 0xFFF;
            hi = push_bit n hi AND 0xFFF
        in cpu\<lparr>A := push_bit 12 hi OR (A cpu AND 0xFFF)\<rparr>)
     else if sub_op = 0x0B then
       (if d37c_mode cpu then
          (let val = A cpu AND WORD_MASK
           in cpu\<lparr>A := (push_bit n val OR drop_bit (24 - n) val) AND WORD_MASK\<rparr>)
        else
          (let lo = A cpu AND 0xFFF;
               lo = push_bit n lo AND 0xFFF
           in cpu\<lparr>A := (A cpu AND 0xFFF000) OR lo\<rparr>))
     else if sub_op = 0x0C then
       (let hi = drop_bit 12 (A cpu) AND 0xFFF;
            lo = A cpu AND 0xFFF;
            hi = drop_bit n hi;
            lo = drop_bit n lo
        in cpu\<lparr>A := push_bit 12 hi OR lo\<rparr>)
     else if sub_op = 0x0D then cpu\<lparr>A := drop_bit n (A cpu)\<rparr>
     else if sub_op = 0x0E then
       (let hi = drop_bit 12 (A cpu) AND 0xFFF;
            hi = drop_bit n hi
        in cpu\<lparr>A := push_bit 12 hi OR (A cpu AND 0xFFF)\<rparr>)
     else if sub_op = 0x0F then
       (if d37c_mode cpu then
          (let val = A cpu AND WORD_MASK
           in cpu\<lparr>A := (drop_bit n val OR push_bit (24 - n) val) AND WORD_MASK\<rparr>)
        else
          (let lo = A cpu AND 0xFFF;
               lo = drop_bit n lo
           in cpu\<lparr>A := (A cpu AND 0xFFF000) OR lo\<rparr>))
     else if sub_op = 0x10 then cpu
     else cpu)"

text \<open>The conversion of an \<open>int\<close> to \<open>int16_t\<close>, read back as a signed value.\<close>

definition to_int16 :: "int \<Rightarrow> int" where
  "to_int16 x = signed_take_bit 15 x"

definition d17b_exec_control :: "d17b_cpu_t \<Rightarrow> uint32_t \<Rightarrow> d17b_cpu_t" where
  "d17b_exec_control cpu instr =
    (let opcode = (ucast (GET_OPCODE instr) :: uint8_t);
         channel = (ucast (GET_CHANNEL instr) :: uint8_t);
         sector = (ucast (GET_SECTOR instr) :: uint8_t)
     in
     if opcode = OP_SCL then
       (let operand = d17b_read cpu channel sector;
            a_hi = to_int16 (uint (drop_bit 12 (A cpu) AND 0xFFF));
            a_lo = to_int16 (uint (A cpu AND 0xFFF));
            o_hi = to_int16 (uint (drop_bit 12 operand AND 0xFFF));
            o_lo = to_int16 (uint (operand AND 0xFFF));
            a_hi = (if a_hi AND 0x800 \<noteq> 0 then to_int16 (a_hi OR 0xF000) else a_hi);
            a_lo = (if a_lo AND 0x800 \<noteq> 0 then to_int16 (a_lo OR 0xF000) else a_lo);
            o_hi = (if o_hi AND 0x800 \<noteq> 0 then to_int16 (o_hi OR 0xF000) else o_hi);
            o_lo = (if o_lo AND 0x800 \<noteq> 0 then to_int16 (o_lo OR 0xF000) else o_lo);
            a_hi = (if a_hi > o_hi then o_hi else a_hi);
            a_hi = (if a_hi < - o_hi then to_int16 (- o_hi) else a_hi);
            a_lo = (if a_lo > o_lo then o_lo else a_lo);
            a_lo = (if a_lo < - o_lo then to_int16 (- o_lo) else a_lo)
        in cpu\<lparr>A := word_of_int (push_bit 12 (a_hi AND 0xFFF) OR (a_lo AND 0xFFF))\<rparr>)
     else cpu)"

definition d17b_exec_special :: "d17b_cpu_t \<Rightarrow> uint32_t \<Rightarrow> d17b_cpu_t" where
  "d17b_exec_special cpu instr =
    (let sector = (ucast (GET_SECTOR instr) :: uint8_t);
         sub_op = drop_bit 1 sector AND 0x3F
     in
     if sub_op = 0x10 then (if d37c_mode cpu then cpu\<lparr>A := A cpu OR L cpu\<rparr> else cpu)
     else if sub_op = 0x11 then cpu\<lparr>A := A cpu AND L cpu\<rparr>
     else if sub_op = 0x12 then cpu\<lparr>A := SIGN_BIT OR (A cpu AND MAGNITUDE_MASK)\<rparr>
     else if sub_op = 0x13 then cpu\<lparr>A := d17b_complement (A cpu)\<rparr>
     else if sub_op = 0x09 then cpu\<lparr>halted := True\<rparr>
     else if sub_op = 0x08 then cpu\<lparr>detector := False\<rparr>
     else if sub_op = 0x19 then cpu\<lparr>countdown_enabled := True\<rparr>
     else if sub_op = 0x18 then cpu\<lparr>countdown_enabled := False\<rparr>
     else if sub_op = 0x1E \<or> sub_op = 0x1F then cpu\<lparr>P := sector AND 0x07\<rparr>
     else if sub_op = 0x15 then cpu\<lparr>A := discrete_in_a cpu\<rparr>
     else if sub_op = 0x14 then cpu\<lparr>A := discrete_in_b cpu\<rparr>
     else if sub_op = 0x0B then cpu\<lparr>discrete_out_a := A cpu\<rparr>
     else if sub_op = 0x0C then
       cpu\<lparr>voltage_out := (voltage_out cpu)[0 := word_of_int (to_signed (drop_bit 15 (A cpu)))]\<rparr>
     else if sub_op = 0x0D then
       cpu\<lparr>voltage_out := (voltage_out cpu)[1 := word_of_int (to_signed (drop_bit 15 (A cpu)))]\<rparr>
     else if sub_op = 0x0E then
       cpu\<lparr>voltage_out := (voltage_out cpu)[2 := word_of_int (to_signed (drop_bit 15 (A cpu)))]\<rparr>
     else if sub_op = 0x04 then
       cpu\<lparr>binary_out := (binary_out cpu)[0 := ucast (drop_bit 22 (A cpu) AND 0x03)]\<rparr>
     else if sub_op = 0x05 then
       cpu\<lparr>binary_out := (binary_out cpu)[1 := ucast (drop_bit 22 (A cpu) AND 0x03)]\<rparr>
     else if sub_op = 0x01 then
       cpu\<lparr>binary_out := (binary_out cpu)[2 := ucast (drop_bit 22 (A cpu) AND 0x03)]\<rparr>
     else cpu)"

section \<open>The fetch-step driver\<close>

text \<open>
  The block \<open>cpu->I = (target_ch << 9) | (target_sec << 2); jumped = true;\<close> that
  \<open>d17b_step\<close> repeats in each transfer case.
\<close>

definition jump_target :: "uint32_t \<Rightarrow> uint32_t" where
  "jump_target instr =
    (let target_ch = (ucast (GET_CHANNEL instr) :: uint8_t);
         target_sec = (ucast (GET_SECTOR instr) :: uint8_t)
     in push_bit 9 (ucast target_ch) OR push_bit 2 (ucast target_sec))"

definition d17b_step :: "d17b_cpu_t \<Rightarrow> int \<times> d17b_cpu_t" where
  "d17b_step cpu =
    (if halted cpu then (- 1, cpu)
     else
      (let channel = (ucast (drop_bit 9 (I cpu) AND 0x3F) :: uint8_t);
           sector = (ucast (drop_bit 2 (I cpu) AND 0x7F) :: uint8_t);
           instr = d17b_read cpu channel sector;
           opcode = (ucast (GET_OPCODE instr) :: uint8_t);
           next_sp = (ucast (GET_SP instr) :: uint8_t);
           (jumped, cpu1) =
             (if opcode = OP_SHIFT then (False, d17b_exec_shift cpu instr)
              else if opcode = OP_SPECIAL then (False, d17b_exec_special cpu instr)
              else if opcode = OP_TRA then (True, cpu\<lparr>I := jump_target instr\<rparr>)
              else if opcode = OP_TMI_TZE then
                (if d37c_mode cpu then
                   (if A cpu AND MAGNITUDE_MASK = 0
                    then (True, cpu\<lparr>I := jump_target instr\<rparr>) else (False, cpu))
                 else
                   (if A cpu AND SIGN_BIT \<noteq> 0
                    then (True, cpu\<lparr>I := jump_target instr\<rparr>) else (False, cpu)))
              else if opcode = OP_TMI then
                (if A cpu AND SIGN_BIT \<noteq> 0
                 then (True, cpu\<lparr>I := jump_target instr\<rparr>) else (False, cpu))
              else if opcode = OP_SCL then (False, d17b_exec_control cpu instr)
              else (False, d17b_exec_arithmetic cpu instr));
           cpu2 = (if \<not> jumped
                   then cpu1\<lparr>I := push_bit 9 (ucast channel) OR push_bit 2 (ucast next_sp)\<rparr>
                   else cpu1);
           cpu3 = cpu2\<lparr>current_sector := (current_sector cpu2 + 1) AND 0x7F\<rparr>;
           cpu4 = cpu3\<lparr>cycle_count := cycle_count cpu3 + 1\<rparr>;
           cpu5 = (if countdown_enabled cpu4 \<and> fine_countdown cpu4 > 0
                   then cpu4\<lparr>fine_countdown := fine_countdown cpu4 - 1\<rparr> else cpu4)
       in (0, cpu5)))"

text \<open>
  Names for the parts of \<open>d17b_step\<close>, used to reason about it piecewise: the
  instruction fetched at \<open>I\<close>, the \<open>switch (opcode)\<close> statement (its first
  component is the local \<open>jumped\<close>), the location counter of a non-jumping
  instruction, and the code after the switch. \<open>d17b_step_unfold\<close> shows that
  \<open>d17b_step\<close> is their composition.
\<close>

definition step_dispatch :: "d17b_cpu_t \<Rightarrow> uint32_t \<Rightarrow> bool \<times> d17b_cpu_t" where
  "step_dispatch cpu instr =
    (let opcode = (ucast (GET_OPCODE instr) :: uint8_t) in
     if opcode = OP_SHIFT then (False, d17b_exec_shift cpu instr)
     else if opcode = OP_SPECIAL then (False, d17b_exec_special cpu instr)
     else if opcode = OP_TRA then (True, cpu\<lparr>I := jump_target instr\<rparr>)
     else if opcode = OP_TMI_TZE then
       (if d37c_mode cpu then
          (if A cpu AND MAGNITUDE_MASK = 0
           then (True, cpu\<lparr>I := jump_target instr\<rparr>) else (False, cpu))
        else
          (if A cpu AND SIGN_BIT \<noteq> 0
           then (True, cpu\<lparr>I := jump_target instr\<rparr>) else (False, cpu)))
     else if opcode = OP_TMI then
       (if A cpu AND SIGN_BIT \<noteq> 0
        then (True, cpu\<lparr>I := jump_target instr\<rparr>) else (False, cpu))
     else if opcode = OP_SCL then (False, d17b_exec_control cpu instr)
     else (False, d17b_exec_arithmetic cpu instr))"

definition step_advance :: "uint32_t \<Rightarrow> bool \<times> d17b_cpu_t \<Rightarrow> d17b_cpu_t" where
  "step_advance next_I p =
    (let (jumped, cpu1) = p;
         cpu2 = (if \<not> jumped then cpu1\<lparr>I := next_I\<rparr> else cpu1);
         cpu3 = cpu2\<lparr>current_sector := (current_sector cpu2 + 1) AND 0x7F\<rparr>;
         cpu4 = cpu3\<lparr>cycle_count := cycle_count cpu3 + 1\<rparr>;
         cpu5 = (if countdown_enabled cpu4 \<and> fine_countdown cpu4 > 0
                 then cpu4\<lparr>fine_countdown := fine_countdown cpu4 - 1\<rparr> else cpu4)
     in cpu5)"

definition fetch :: "d17b_cpu_t \<Rightarrow> uint32_t" where
  "fetch cpu =
    d17b_read cpu (ucast (drop_bit 9 (I cpu) AND 0x3F)) (ucast (drop_bit 2 (I cpu) AND 0x7F))"

definition next_I :: "d17b_cpu_t \<Rightarrow> uint32_t" where
  "next_I cpu =
    push_bit 9 (ucast (ucast (drop_bit 9 (I cpu) AND 0x3F) :: uint8_t))
      OR push_bit 2 (ucast (ucast (GET_SP (fetch cpu)) :: uint8_t))"

lemma d17b_step_unfold:
  "d17b_step cpu =
    (if halted cpu then (- 1, cpu)
     else (0, step_advance (next_I cpu) (step_dispatch cpu (fetch cpu))))"
  unfolding d17b_step_def step_advance_def step_dispatch_def fetch_def next_I_def
    Let_def split_def
  by (rule refl)

text \<open>No instruction changes the cycle count; the driver adds one to it.\<close>

lemma cycle_count_write [simp]: "cycle_count (d17b_write cpu c s v) = cycle_count cpu"
  by (simp add: d17b_write_def Let_def)

lemma cycle_count_flag_store [simp]: "cycle_count (d17b_flag_store cpu fc s) = cycle_count cpu"
  by (simp add: d17b_flag_store_def Let_def)

lemma cycle_count_multiply [simp]: "cycle_count (d17b_multiply cpu x sp) = cycle_count cpu"
  by (simp add: d17b_multiply_def Let_def)

lemma cycle_count_divide [simp]: "cycle_count (d17b_divide cpu x) = cycle_count cpu"
  by (simp add: d17b_divide_def Let_def)

lemma cycle_count_exec_arithmetic [simp]:
  "cycle_count (d17b_exec_arithmetic cpu instr) = cycle_count cpu"
  by (simp add: d17b_exec_arithmetic_def Let_def)

lemma cycle_count_exec_shift [simp]:
  "cycle_count (d17b_exec_shift cpu instr) = cycle_count cpu"
  by (simp add: d17b_exec_shift_def Let_def)

lemma cycle_count_exec_control [simp]:
  "cycle_count (d17b_exec_control cpu instr) = cycle_count cpu"
  by (simp add: d17b_exec_control_def Let_def)

lemma cycle_count_exec_special [simp]:
  "cycle_count (d17b_exec_special cpu instr) = cycle_count cpu"
  by (simp add: d17b_exec_special_def Let_def)

lemma cycle_count_dispatch [simp]:
  "cycle_count (snd (step_dispatch cpu instr)) = cycle_count cpu"
  by (simp add: step_dispatch_def Let_def)

lemma cycle_count_advance [simp]:
  "cycle_count (step_advance n p) = cycle_count (snd p) + 1"
  by (simp add: step_advance_def Let_def split_def)

lemma cycle_count_step:
  "\<not> halted cpu \<Longrightarrow> cycle_count (snd (d17b_step cpu)) = cycle_count cpu + 1"
  by (simp add: d17b_step_unfold)

lemma fst_step: "fst (d17b_step cpu) = (if halted cpu then - 1 else 0)"
  by (simp add: d17b_step_unfold)

section \<open>Run\<close>

text \<open>
  The \<open>while\<close> loop of \<open>d17b_run\<close>; \<open>start\<close> is the cycle count at entry. The
  loop ends because each step of a state that is not halted adds one to the cycle count.
\<close>

function run_loop :: "uint64_t \<Rightarrow> uint64_t \<Rightarrow> d17b_cpu_t \<Rightarrow> d17b_cpu_t" where
  "run_loop start max_cycles cpu =
    (if \<not> halted cpu \<and> cycle_count cpu - start < max_cycles
     then (let (r, cpu') = d17b_step cpu
           in if r < 0 then cpu' else run_loop start max_cycles cpu')
     else cpu)"
  by pat_completeness auto

lemma run_measure:
  fixes d m :: uint64_t
  assumes "d < m"
  shows "unat (m - (d + 1)) < unat (m - d)"
proof -
  have lt: "unat d < unat m" using assms by (simp add: word_less_nat_alt)
  have "unat m < 2 ^ LENGTH(64)" by (rule unsigned_less)
  then have "unat d + unat (1::uint64_t) < 2 ^ LENGTH(64)" using lt by simp
  then have s: "unat (d + 1) = unat d + 1" using unat_add_lem[of d 1] by simp
  have le1: "d + 1 \<le> m" using assms by (rule inc_le)
  have le0: "d \<le> m" using assms by simp
  show ?thesis using unat_sub[OF le1] unat_sub[OF le0] s lt by simp
qed

termination run_loop
proof (relation
    "measure (\<lambda>(start, max_cycles, cpu). unat (max_cycles - (cycle_count cpu - start)))")
  show "wf (measure
      (\<lambda>(start, max_cycles, cpu). unat (max_cycles - (cycle_count cpu - start))))"
    by simp
next
  fix start max_cycles :: uint64_t and cpu x xa y
  assume a: "\<not> halted cpu \<and> cycle_count cpu - start < max_cycles"
    and b: "x = d17b_step cpu" and c: "(xa, y) = x"
  have "y = snd (d17b_step cpu)" using b c by (metis snd_conv)
  then have y: "cycle_count y - start = (cycle_count cpu - start) + 1"
    using cycle_count_step[of cpu] a by simp
  have "unat (max_cycles - (cycle_count y - start))
      < unat (max_cycles - (cycle_count cpu - start))"
    unfolding y using a by (blast intro: run_measure)
  then show "((start, max_cycles, y), start, max_cycles, cpu)
      \<in> measure (\<lambda>(start, max_cycles, cpu). unat (max_cycles - (cycle_count cpu - start)))"
    by simp
qed

declare run_loop.simps [simp del]

definition d17b_run :: "d17b_cpu_t \<Rightarrow> uint64_t \<Rightarrow> int \<times> d17b_cpu_t" where
  "d17b_run cpu max_cycles =
    (let start = cycle_count cpu;
         cpu' = run_loop start max_cycles cpu
     in (if halted cpu' then - 1 else 0, cpu'))"

section \<open>The host side (src/main.c)\<close>

text \<open>
  The macro \<open>ENCODE_INSTR\<close> of src/main.c, and its direct store to the disc,
  \<open>cpu->memory[ch][sec] = w\<close>, used to build concrete machine states.
\<close>

definition ENCODE_INSTR ::
  "uint32_t \<Rightarrow> uint32_t \<Rightarrow> uint32_t \<Rightarrow> uint32_t \<Rightarrow> uint32_t \<Rightarrow> uint32_t" where
  "ENCODE_INSTR op flag sp chan sec =
     push_bit 20 (op AND 0xF) OR push_bit 19 (flag AND 0x1) OR
     push_bit 15 (sp AND 0xF) OR push_bit 9 (chan AND 0x3F) OR push_bit 2 (sec AND 0x7F)"

definition poke :: "d17b_cpu_t \<Rightarrow> nat \<Rightarrow> nat \<Rightarrow> uint32_t \<Rightarrow> d17b_cpu_t" where
  "poke cpu ch sec w = cpu\<lparr>memory := (memory cpu)[ch := (memory cpu ! ch)[sec := w]]\<rparr>"

section \<open>Notation of the specification\<close>

text \<open>
  The 23-bit magnitude field \<open>|x|\<close> of a word, as a natural number. The signed
  reading of a word is \<open>to_signed\<close>, the function of the source.
\<close>

definition magnitude :: "uint32_t \<Rightarrow> nat" where
  "magnitude w = unat (w AND MAGNITUDE_MASK)"

text \<open>
  \<open>steps n cpu\<close> is the state after \<open>n\<close> successive calls of \<open>d17b_step\<close>.
\<close>

fun steps :: "nat \<Rightarrow> d17b_cpu_t \<Rightarrow> d17b_cpu_t" where
  "steps 0 cpu = cpu"
| "steps (Suc n) cpu = steps n (snd (d17b_step cpu))"

section \<open>Concrete machine states\<close>


text \<open>
  A machine whose location counter points at the \<open>HPR\<close> word of the demo program,
  with the fine countdown running.
\<close>

definition hpr_state :: d17b_cpu_t where
  "hpr_state = poke (memset_zero\<lparr>I := 20, countdown_enabled := True, fine_countdown := 3\<rparr>)
                 0 5 (ENCODE_INSTR 8 0 6 0 18)"

text \<open>
  \<open>A = 4\<close>, \<open>L = 7\<close> and the operand 0 at channel 0, sector 5: the addition leaves
  \<open>A\<close> as it is, so \<open>A\<close> before and after the ADD is the same word.
\<close>

definition add_flag_state :: d17b_cpu_t where
  "add_flag_state = poke (memset_zero\<lparr>A := 4, L := 7\<rparr>) 0 5 0"

text \<open>
  The high lane of \<open>A\<close> is 3; the operand's high lane is \<open>0xFFB\<close>, that is \<open>-5\<close>.
\<close>

definition scl_state :: d17b_cpu_t where
  "scl_state = poke (memset_zero\<lparr>A := 0x003000\<rparr>) 0 1 0xFFB000"

text \<open>
  \<open>A\<close> has the sign bit set and bits 22..14 equal to 3, the 10-bit value \<open>-3\<close>; the
  operand has the sign bit clear and bits 22..14 equal to 1, the 10-bit value \<open>+1\<close>.
\<close>

definition smp_state :: d17b_cpu_t where
  "smp_state = poke (memset_zero\<lparr>A := 0x80C000\<rparr>) 0 1 0x004000"

text \<open>
  A D37C machine whose word at the location counter is \<open>DIV 0,1\<close> with next-sector
  pointer 0, and whose divisor at channel 0, sector 1 is zero: every step divides by
  zero and returns to the same instruction.
\<close>

definition div0_state :: d17b_cpu_t where
  "div0_state = poke (memset_zero\<lparr>d37c_mode := True\<rparr>) 0 0 (ENCODE_INSTR 7 0 0 0 1)"

lemmas example_defs = poke_def ENCODE_INSTR_def memset_zero_def fetch_def d17b_read_def

section \<open>Auxiliary facts about masks and magnitudes\<close>

lemma and_mag_take_bit: "w AND 0x7FFFFF = take_bit 23 w" for w :: "'a::len word"
proof -
  have "(0x7FFFFF :: 'a word) = mask 23" by (simp add: mask_eq_exp_minus_1)
  then show ?thesis by (simp add: take_bit_eq_mask)
qed

lemma int_and_mag_take_bit: "k AND 0x7FFFFF = take_bit 23 k" for k :: int
proof -
  have "(0x7FFFFF :: int) = mask 23" by (simp add: mask_eq_exp_minus_1)
  then show ?thesis by (simp add: take_bit_eq_mask)
qed

lemma uint_and_mag: "uint (w AND 0x7FFFFF) = uint w mod 8388608" for w :: "'a::len word"
  by (simp only: and_mag_take_bit unsigned_take_bit_eq) (simp add: take_bit_eq_mod)

lemma unat_and_mag: "unat (w AND 0x7FFFFF) = unat w mod 8388608" for w :: "'a::len word"
  by (simp only: and_mag_take_bit unsigned_take_bit_eq) (simp add: take_bit_eq_mod)

lemma and_sign_iff: "(w AND 0x800000 = 0) \<longleftrightarrow> \<not> bit w 23" for w :: "uint32_t"
proof -
  have "(0x800000 :: uint32_t) = 2 ^ 23" by simp
  then show ?thesis by (simp only: and_exp_eq_0_iff_not_bit)
qed

lemma to_signed_bounds: "- 0x7FFFFF \<le> to_signed w \<and> to_signed w \<le> 0x7FFFFF"
proof -
  have "0 \<le> uint w mod 8388608" "uint w mod 8388608 < 8388608" by simp_all
  then show ?thesis by (auto simp add: to_signed_def uint_and_mag)
qed

lemma bit23_int: "0 \<le> m \<Longrightarrow> m < 8388608 \<Longrightarrow> \<not> bit (m::int) 23"
  by (simp add: bit_iff_odd)

lemma to_signed_from_signed:
  assumes "- 0x7FFFFF \<le> v" "v \<le> 0x7FFFFF"
  shows "to_signed (from_signed v) = v"
proof (cases "v < 0")
  case True
  define m where "m = - v"
  have m: "0 < m" "m < 8388608" using True assms by (simp_all add: m_def)
  have 1: "m AND 0x7FFFFF = m"
    using m by (simp add: int_and_mag_take_bit take_bit_int_eq_self)
  have "(8388608::int) AND m = 0"
    using bit23_int[of m] m and_exp_eq_0_iff_not_bit[of m 23] by (simp add: and.commute)
  then have 2: "(0x800000 :: int) OR m = 8388608 + m"
    by (simp add: disjunctive_add_eq_or)
  define w :: uint32_t where "w = word_of_int (8388608 + m)"
  have uw: "uint w = 8388608 + m"
    unfolding w_def using m by (simp only: uint_word_of_int_eq) (simp add: take_bit_int_eq_self)
  have fs: "from_signed v = w"
    using True 1 2 by (simp add: from_signed_def w_def m_def)
  have mag: "uint (w AND 0x7FFFFF) = m"
    using m by (simp add: uint_and_mag uw)
  have "(8388608 + m) div 8388608 = 1" using m by simp
  then have "bit w 23"
    unfolding w_def by (simp only: bit_word_of_int_iff) (simp add: bit_iff_odd)
  then have sg: "w AND 0x800000 \<noteq> 0" by (simp add: and_sign_iff)
  show ?thesis using sg mag by (simp add: fs to_signed_def m_def)
next
  case False
  then have v: "0 \<le> v" "v < 8388608" using assms by simp_all
  have 1: "v AND 0x7FFFFF = v"
    using v by (simp add: int_and_mag_take_bit take_bit_int_eq_self)
  define w :: uint32_t where "w = word_of_int v"
  have uw: "uint w = v"
    using v by (simp add: w_def uint_word_of_int take_bit_int_eq_self)
  have fs: "from_signed v = w"
    using False 1 by (simp add: from_signed_def w_def)
  have mag: "uint (w AND 0x7FFFFF) = v"
    using v by (simp add: uint_and_mag uw)
  have "v div 8388608 = 0" using v by simp
  then have "\<not> bit w 23"
    unfolding w_def by (simp only: bit_word_of_int_iff) (simp add: bit_iff_odd)
  then have sg: "w AND 0x800000 = 0" by (simp add: and_sign_iff)
  show ?thesis using sg mag by (simp add: fs to_signed_def)
qed

lemma magnitude_less: "magnitude w < 8388608"
  by (simp add: magnitude_def unat_and_mag)

lemma magnitude_or_sign: "magnitude (w OR SIGN_BIT) = magnitude w"
proof -
  have "(0x800000 :: uint32_t) = push_bit 23 1" by simp
  then have "take_bit 23 (w OR 0x800000) = take_bit 23 w"
    by (simp only: take_bit_or take_bit_push_bit) simp
  then show ?thesis by (simp add: magnitude_def and_mag_take_bit)
qed

lemma magnitude_and_mag: "magnitude (w AND MAGNITUDE_MASK) = magnitude w"
  by (simp add: magnitude_def and_mag_take_bit)

lemma magnitude_eq_0_iff: "magnitude w = 0 \<longleftrightarrow> w AND MAGNITUDE_MASK = 0"
  by (simp add: magnitude_def unat_eq_0)

text \<open>The 46-bit dividend \<open>((uint64_t)(A & MAGNITUDE_MASK) << 23) | (L & MAGNITUDE_MASK)\<close>.\<close>

lemma unat_dividend:
  fixes a l :: uint32_t
  shows "unat (push_bit 23 (ucast (a AND MAGNITUDE_MASK) :: uint64_t) OR ucast (l AND MAGNITUDE_MASK))
         = magnitude a * 8388608 + magnitude l"
proof -
  define x :: uint64_t where "x = ucast (a AND MAGNITUDE_MASK)"
  define y :: uint64_t where "y = ucast (l AND MAGNITUDE_MASK)"
  have ux: "unat x = magnitude a"
    by (simp add: x_def magnitude_def unsigned_ucast_eq unat_and_mag take_bit_nat_eq_self)
  have uy: "unat y = magnitude l"
    by (simp add: y_def magnitude_def unsigned_ucast_eq unat_and_mag take_bit_nat_eq_self)
  have ytb: "y = take_bit 23 (ucast l)"
    by (simp only: y_def and_mag_take_bit unsigned_take_bit_eq)
  have disj: "push_bit 23 x AND y = 0"
    unfolding ytb by (auto simp add: bit_eq_iff bit_simps)
  have or_add: "push_bit 23 x OR y = x * 8388608 + y"
    using disjunctive_add_eq_or[OF disj] by (simp add: push_bit_eq_mult)
  have "unat x * unat (8388608 :: uint64_t) < 2 ^ LENGTH(64)"
    using magnitude_less[of a] by (simp add: ux)
  then have um: "unat (x * 8388608) = magnitude a * 8388608"
    using unat_mult_lem[of x "8388608 :: uint64_t"] by (simp add: ux)
  have "unat (x * 8388608) + unat y < 2 ^ LENGTH(64)"
    using magnitude_less[of a] magnitude_less[of l] by (simp add: um uy)
  then have "unat (x * 8388608 + y) = magnitude a * 8388608 + magnitude l"
    using unat_add_lem[of "x * 8388608" y] by (simp add: um uy)
  then have "unat (push_bit 23 x OR y) = magnitude a * 8388608 + magnitude l"
    by (simp only: or_add)
  then show ?thesis by (simp only: x_def y_def)
qed

lemma unat_ucast_mag:
  fixes d :: uint32_t
  shows "unat (ucast (d AND MAGNITUDE_MASK) :: uint64_t) = magnitude d"
  by (simp add: magnitude_def unsigned_ucast_eq unat_and_mag take_bit_nat_eq_self)

lemma magnitude_ucast_down:
  fixes q :: uint64_t
  assumes "unat q < 8388608"
  shows "magnitude (ucast q AND MAGNITUDE_MASK) = unat q"
  using assms
  by (simp add: magnitude_and_mag)
     (simp add: magnitude_def unat_and_mag unsigned_ucast_eq take_bit_nat_eq_self)

lemma divide_error_latch:
  "error_latch (d17b_divide cpu divisor) \<longleftrightarrow>
     error_latch cpu \<or> magnitude divisor = 0
     \<or> 2 ^ 23 - 1 < (magnitude (A cpu) * 2 ^ 23 + magnitude (L cpu)) div magnitude divisor"
proof (cases "divisor AND MAGNITUDE_MASK = 0")
  case True
  then show ?thesis by (simp add: d17b_divide_def magnitude_eq_0_iff)
next
  case False
  define dividend :: uint64_t
    where "dividend = push_bit 23 (ucast (A cpu AND MAGNITUDE_MASK)) OR ucast (L cpu AND MAGNITUDE_MASK)"
  define dm :: uint64_t where "dm = ucast (divisor AND MAGNITUDE_MASK)"
  have uq: "unat (dividend div dm)
      = (magnitude (A cpu) * 8388608 + magnitude (L cpu)) div magnitude divisor"
    by (simp only: unat_div_distrib dividend_def dm_def unat_dividend unat_ucast_mag)
  have "error_latch (d17b_divide cpu divisor) \<longleftrightarrow> error_latch cpu \<or> 8388607 < dividend div dm"
    using False by (simp add: d17b_divide_def Let_def flip: dividend_def dm_def)
  then show ?thesis
    using False by (simp add: word_less_nat_alt uq magnitude_eq_0_iff)
qed

section \<open>Auxiliary facts about the decoder and the flag store\<close>

lemma ucast8_id:
  fixes x :: uint32_t
  assumes "take_bit 8 x = x"
  shows "ucast (ucast x :: uint8_t) = x"
proof -
  have "ucast (ucast x :: uint8_t) = take_bit 8 x"
    by (simp add: bit_eq_iff bit_simps)
  then show ?thesis using assms by simp
qed

lemma ucast8_and_3F: "ucast (ucast (x AND 0x3F) :: uint8_t) = x AND (0x3F :: uint32_t)"
proof -
  have "(0x3F :: uint32_t) = mask 6" by (simp add: mask_eq_exp_minus_1)
  then have "x AND 0x3F = take_bit 6 x" by (simp add: take_bit_eq_mask)
  then show ?thesis by (simp add: ucast8_id)
qed


lemma ucast8_and_0F: "ucast (ucast (x AND 0x0F) :: uint8_t) = x AND (0x0F :: uint32_t)"
proof -
  have "(0x0F :: uint32_t) = mask 4" by (simp add: mask_eq_exp_minus_1)
  then have "x AND 0x0F = take_bit 4 x" by (simp add: take_bit_eq_mask)
  then show ?thesis by (simp add: ucast8_id)
qed


lemma next_I_eq:
  "next_I cpu = push_bit 9 (drop_bit 9 (I cpu) AND 0x3F) OR push_bit 2 (GET_SP (fetch cpu))"
  by (simp add: next_I_def GET_SP_def ucast8_and_3F ucast8_and_0F)

text \<open>
  The flag code handed to \<open>d17b_flag_store\<close> is \<open>instr & 7\<close>, at most 7, so the
  cases \<open>0x08\<close>, \<open>0x0A\<close>, \<open>0x0C\<close> and \<open>0x0E\<close> of its switch are never taken: an ADD
  never writes \<open>L\<close>.
\<close>

lemma flag_code_le: "(ucast (GET_FLAG_CODE w) :: uint8_t) \<le> 7"
proof -
  have "(0x07 :: uint32_t) = mask 3" by (simp add: mask_eq_exp_minus_1)
  then have "GET_FLAG_CODE w = take_bit 3 w" by (simp add: GET_FLAG_CODE_def take_bit_eq_mask)
  then have "unat (ucast (GET_FLAG_CODE w) :: uint8_t) = take_bit 8 (take_bit 3 (unat w))"
    by (simp only: unsigned_ucast_eq unsigned_take_bit_eq) simp
  then have "unat (ucast (GET_FLAG_CODE w) :: uint8_t) = unat w mod 8"
    by (simp add: take_bit_eq_mod)
  then show ?thesis by (simp add: word_le_nat_alt)
qed

lemma L_write_0x28: "L (d17b_write cpu 0x28 s v) = L cpu"
  by (simp add: d17b_write_def Let_def)

lemma L_flag_store: "fc \<le> 7 \<Longrightarrow> L (d17b_flag_store cpu fc s) = L cpu"
  by (auto simp add: d17b_flag_store_def Let_def L_write_0x28)

lemma add_never_writes_L:
  "GET_OPCODE instr = 0xD \<Longrightarrow> L (d17b_exec_arithmetic cpu instr) = L cpu"
  by (simp add: d17b_exec_arithmetic_def Let_def L_flag_store flag_code_le)

section \<open>Auxiliary facts about the run loop\<close>

lemma run_loop_stop:
  assumes "\<not> (\<not> halted cpu \<and> cycle_count cpu - start < max_cycles)"
  shows "run_loop start max_cycles cpu = cpu"
  by (subst run_loop.simps) (simp only: assms if_False)

lemma run_loop_continue:
  assumes "\<not> halted cpu" "cycle_count cpu - start < max_cycles"
  shows "run_loop start max_cycles cpu = run_loop start max_cycles (snd (d17b_step cpu))"
proof -
  have "fst (d17b_step cpu) = 0" using assms(1) by (simp add: fst_step)
  then show ?thesis
    by (subst run_loop.simps) (simp only: assms simp_thms if_True split_def Let_def, simp)
qed

lemma unat_succ_offset:
  fixes d m :: uint64_t
  assumes "d < m"
  shows "unat (d + 1) = Suc (unat d)" and "d + 1 \<le> m"
proof -
  have lt: "unat d < unat m" using assms by (simp add: word_less_nat_alt)
  have "unat m < 2 ^ LENGTH(64)" by (rule unsigned_less)
  then have "unat d + unat (1::uint64_t) < 2 ^ LENGTH(64)" using lt by simp
  then show "unat (d + 1) = Suc (unat d)" using unat_add_lem[of d 1] by simp
  show "d + 1 \<le> m" using assms by (rule inc_le)
qed

lemma run_loop_steps:
  "cycle_count cpu - start \<le> max_cycles \<Longrightarrow>
   \<exists>k. k \<le> unat max_cycles - unat (cycle_count cpu - start)
       \<and> run_loop start max_cycles cpu = steps k cpu
       \<and> (\<forall>j<k. \<not> halted (steps j cpu))
       \<and> (halted (steps k cpu) \<or> k = unat max_cycles - unat (cycle_count cpu - start))"
proof (induction start max_cycles cpu rule: run_loop.induct)
  case (1 start max_cycles cpu)
  let ?d = "cycle_count cpu - start"
  show ?case
  proof (cases "\<not> halted cpu \<and> ?d < max_cycles")
    case False
    then have stop: "run_loop start max_cycles cpu = cpu"
      by (simp add: run_loop_stop)
    have "halted cpu \<or> unat max_cycles - unat ?d = 0"
      using False "1.prems" by (auto simp add: word_less_nat_alt word_le_nat_alt)
    then show ?thesis
      using stop by (intro exI[of _ 0]) auto
  next
    case True
    define cpu' where "cpu' = snd (d17b_step cpu)"
    have r: "fst (d17b_step cpu) = 0" using True by (simp add: fst_step)
    have cc: "cycle_count cpu' - start = ?d + 1"
      using True by (simp add: cpu'_def cycle_count_step)
    have u: "unat (?d + 1) = Suc (unat ?d)" and le: "?d + 1 \<le> max_cycles"
      using True unat_succ_offset[of ?d max_cycles] by simp_all
    have lt: "unat ?d < unat max_cycles"
      using True by (simp add: word_less_nat_alt)
    have "\<exists>k. k \<le> unat max_cycles - unat (cycle_count cpu' - start)
       \<and> run_loop start max_cycles cpu' = steps k cpu'
       \<and> (\<forall>j<k. \<not> halted (steps j cpu'))
       \<and> (halted (steps k cpu') \<or> k = unat max_cycles - unat (cycle_count cpu' - start))"
    proof (rule "1.IH"[OF True, of "d17b_step cpu" "fst (d17b_step cpu)" cpu'])
      show "d17b_step cpu = d17b_step cpu" ..
      show "(fst (d17b_step cpu), cpu') = d17b_step cpu" by (simp add: cpu'_def)
      show "\<not> fst (d17b_step cpu) < 0" by (simp add: r)
      show "cycle_count cpu' - start \<le> max_cycles" using le by (simp only: cc)
    qed
    then obtain k where k: "k \<le> unat max_cycles - Suc (unat ?d)"
        "run_loop start max_cycles cpu' = steps k cpu'"
        "\<forall>j<k. \<not> halted (steps j cpu')"
        "halted (steps k cpu') \<or> k = unat max_cycles - Suc (unat ?d)"
      unfolding cc u by blast
    have run: "run_loop start max_cycles cpu = steps (Suc k) cpu"
      using True k(2) by (simp add: run_loop_continue cpu'_def)
    have nh: "\<forall>j<Suc k. \<not> halted (steps j cpu)"
    proof (intro allI impI)
      fix j assume "j < Suc k"
      then show "\<not> halted (steps j cpu)"
        using True k(3) by (cases j) (simp_all add: cpu'_def)
    qed
    have fin: "halted (steps (Suc k) cpu) \<or> Suc k = unat max_cycles - unat ?d"
      using k(4) lt by (auto simp add: cpu'_def)
    have bound: "Suc k \<le> unat max_cycles - unat ?d"
      using k(1) lt by simp
    show ?thesis
      using run nh fin bound by blast
  qed
qed

lemma div0_step:
  assumes "memory c = memory div0_state" "I c = 0" "d37c_mode c" "\<not> halted c"
  shows "snd (d17b_step c) =
           c\<lparr>error_latch := True, current_sector := (current_sector c + 1) AND 0x7F,
              cycle_count := cycle_count c + 1,
              fine_countdown := (if countdown_enabled c \<and> fine_countdown c > 0
                                 then fine_countdown c - 1 else fine_countdown c)\<rparr>"
proof -
  have f: "fetch c = 0x700004"
    by (simp add: fetch_def d17b_read_def assms div0_state_def poke_def memset_zero_def
        ENCODE_INSTR_def)
  have op: "d17b_read c 0 1 = 0"
    by (simp add: d17b_read_def assms div0_state_def poke_def memset_zero_def)
  have ex: "d17b_exec_arithmetic c 0x700004 = c\<lparr>error_latch := True\<rparr>"
    using assms(3)
    by (simp add: d17b_exec_arithmetic_def GET_OPCODE_def GET_CHANNEL_def GET_SECTOR_def
        GET_FLAG_def op d17b_divide_def)
  have disp: "step_dispatch c (fetch c) = (False, c\<lparr>error_latch := True\<rparr>)"
    by (simp add: f step_dispatch_def GET_OPCODE_def ex)
  have n: "next_I c = 0"
    by (simp add: next_I_eq f assms GET_SP_def)
  show ?thesis
    using assms(2,4) by (simp add: d17b_step_unfold disp n step_advance_def Let_def)
qed

lemma div0_state_facts:
  "memory div0_state = memory div0_state" "I div0_state = 0" "d37c_mode div0_state"
  "\<not> halted div0_state" "\<not> error_latch div0_state" "cycle_count div0_state = 0"
  by (simp_all add: div0_state_def poke_def memset_zero_def)

lemma div0_step1:
  "snd (d17b_step div0_state) =
     div0_state\<lparr>error_latch := True, current_sector := 1, cycle_count := 1\<rparr>"
  using div0_step[OF div0_state_facts(1-4)]
  by (simp add: div0_state_def poke_def memset_zero_def)

lemma div0_step2:
  "snd (d17b_step (div0_state\<lparr>error_latch := True, current_sector := 1, cycle_count := 1\<rparr>)) =
     div0_state\<lparr>error_latch := True, current_sector := 2, cycle_count := 2\<rparr>"
  using div0_step[of "div0_state\<lparr>error_latch := True, current_sector := 1, cycle_count := 1\<rparr>"]
  by (simp add: div0_state_def poke_def memset_zero_def)

section \<open>Claims\<close>

text \<open>
  C1, as stated, fails: the claim has \<open>d17b_reset\<close> zero the main disc memory and
  leave \<open>d37c_mode\<close> at its value before the reset. On a machine in D17B mode whose
  disc holds the word 1 everywhere, the reset switches the mode to D37C and the disc
  still holds 1 at channel 0, sector 0.
\<close>

theorem reset_counterexample:
  "d37c_mode (d17b_reset (memset_zero\<lparr>memory := replicate CHANNELS (replicate SECTORS 1)\<rparr>))
     \<noteq> d37c_mode (memset_zero\<lparr>memory := replicate CHANNELS (replicate SECTORS 1)\<rparr>)
   \<and> memory (d17b_reset (memset_zero\<lparr>memory := replicate CHANNELS (replicate SECTORS 1)\<rparr>)) ! 0 ! 0
       = 1"
  by (simp add: d17b_reset_def memset_zero_def)

text \<open>
  C1, amended. For every CPU state, \<open>d17b_reset\<close> zeros the registers A, L, N, I
  and P, every rapid-access loop, the disc position and the cycle count, the I/O
  latches, the detector and the countdown, and the halted and error latches; it leaves
  the main disc memory unchanged and sets \<open>d37c_mode\<close> to true.
\<close>

theorem reset_amended:
  "d17b_reset cpu = memset_zero\<lparr>memory := memory cpu, d37c_mode := True\<rparr>"
  by (simp add: d17b_reset_def memset_zero_def)

text \<open>
  C2, evaluated at a failing input. The claim has an ADD with the F bit set and
  \<open>S & 7 = 5\<close> leave \<open>L\<close> equal to \<open>A\<close> after the addition. For the instruction
  \<open>ADD 0,5\<close> with F set, on a machine with \<open>A = 4\<close>, \<open>L = 7\<close> and operand 0, the
  accumulator is 4 before and after the addition, and the code leaves \<open>L = 7\<close>: the
  flag code it hands to \<open>d17b_flag_store\<close> is \<open>instr & 7 = 4\<close>, never \<open>0x0A\<close>.
\<close>

theorem add_flag_L_failing_input:
  "GET_OPCODE (ENCODE_INSTR 0xD 1 0 0 5) = 0xD
   \<and> GET_FLAG (ENCODE_INSTR 0xD 1 0 0 5) = 1
   \<and> GET_SECTOR (ENCODE_INSTR 0xD 1 0 0 5) AND 7 = 5
   \<and> GET_FLAG_CODE (ENCODE_INSTR 0xD 1 0 0 5) = 4
   \<and> A add_flag_state = 4
   \<and> A (d17b_exec_arithmetic add_flag_state (ENCODE_INSTR 0xD 1 0 0 5)) = 4
   \<and> L (d17b_exec_arithmetic add_flag_state (ENCODE_INSTR 0xD 1 0 0 5)) = 7"
  by (simp add: add_flag_state_def example_defs d17b_exec_arithmetic_def GET_OPCODE_def
      GET_FLAG_def GET_SECTOR_def GET_CHANNEL_def GET_FLAG_CODE_def d17b_flag_store_def
      d17b_add_24bit_def to_signed_def from_signed_def Let_def)

text \<open>
  C3, as stated, fails: the claim has \<open>d17b_run\<close> stop as soon as an error is
  latched. On the machine that divides by zero at every step, the first step latches
  the error, and a run with budget 2 still executes a second step.
\<close>

theorem run_ignores_error_counterexample:
  "\<not> error_latch div0_state
   \<and> error_latch (snd (d17b_step div0_state))
   \<and> cycle_count (snd (d17b_step div0_state)) = 1
   \<and> snd (d17b_run div0_state 2) = snd (d17b_step (snd (d17b_step div0_state)))
   \<and> cycle_count (snd (d17b_run div0_state 2)) = 2"
proof -
  let ?s1 = "snd (d17b_step div0_state)"
  let ?s2 = "snd (d17b_step ?s1)"
  have r0: "run_loop 0 2 div0_state = run_loop 0 2 ?s1"
    by (rule run_loop_continue) (simp_all add: div0_state_facts)
  have r1: "run_loop 0 2 ?s1 = run_loop 0 2 ?s2"
    by (rule run_loop_continue) (simp_all add: div0_step1 div0_state_facts)
  have r2: "run_loop 0 2 ?s2 = ?s2"
    by (rule run_loop_stop) (simp add: div0_step1 div0_step2)
  have "snd (d17b_run div0_state 2) = ?s2"
    by (simp add: d17b_run_def Let_def div0_state_facts r0 r1 r2)
  then show ?thesis
    by (simp add: div0_step1 div0_step2 div0_state_facts)
qed

text \<open>
  C3, amended. For every state and budget, \<open>d17b_run\<close> steps repeatedly and stops as
  soon as the halted latch is set or the cycle budget is exhausted: it performs exactly
  \<open>k\<close> steps, where no state before the \<open>k\<close>-th is halted and either the \<open>k\<close>-th is
  halted or \<open>k\<close> is the budget; it returns \<open>-1\<close> if the final state is halted and 0
  otherwise. The error latch does not stop the run.
\<close>

theorem run_stops_on_halt_or_budget:
  "\<exists>k. k \<le> unat max_cycles
      \<and> snd (d17b_run cpu max_cycles) = steps k cpu
      \<and> (\<forall>j<k. \<not> halted (steps j cpu))
      \<and> (halted (steps k cpu) \<or> k = unat max_cycles)
      \<and> fst (d17b_run cpu max_cycles) = (if halted (steps k cpu) then - 1 else 0)"
proof -
  have "cycle_count cpu - cycle_count cpu \<le> max_cycles" by simp
  from run_loop_steps[OF this]
  obtain k where "k \<le> unat max_cycles"
      "run_loop (cycle_count cpu) max_cycles cpu = steps k cpu"
      "\<forall>j<k. \<not> halted (steps j cpu)"
      "halted (steps k cpu) \<or> k = unat max_cycles"
    by auto
  then show ?thesis
    by (intro exI[of _ k]) (simp add: d17b_run_def Let_def)
qed

theorem run_stops_on_halt_or_budget_witness:
  "snd (d17b_run div0_state 2) = steps 2 div0_state
   \<and> fst (d17b_run div0_state 2) = 0
   \<and> \<not> halted (steps 0 div0_state)
   \<and> \<not> halted (steps 1 div0_state)
   \<and> \<not> halted (steps 2 div0_state)
   \<and> error_latch (steps 1 div0_state)"
proof -
  have nh: "\<not> halted (steps j div0_state)" if "j \<le> 2" for j
  proof -
    from that consider "j = 0" | "j = 1" | "j = 2" by linarith
    then show ?thesis
      by cases (simp_all add: numeral_2_eq_2 div0_step1 div0_step2 div0_state_facts)
  qed
  obtain k where k: "k \<le> unat (2 :: uint64_t)"
      "snd (d17b_run div0_state 2) = steps k div0_state"
      "halted (steps k div0_state) \<or> k = unat (2 :: uint64_t)"
      "fst (d17b_run div0_state 2) = (if halted (steps k div0_state) then - 1 else 0)"
    using run_stops_on_halt_or_budget[of 2 div0_state] by blast
  have "k = 2" using k(1,3) nh[of k] by simp
  then show ?thesis
    using k(2,4) by (simp add: numeral_2_eq_2 less_Suc_eq div0_step1 div0_step2 div0_state_facts)
qed

text \<open>
  C4, evaluated at a failing input. The claim has SCL clamp each lane of \<open>A\<close> to
  \<open>[-|operand_lane|, +|operand_lane|]\<close>, also for a negative operand lane. With the
  high lane of \<open>A\<close> equal to 3 and the operand's high lane equal to \<open>-5\<close>, the clamped
  value is 3, and the code writes 5.
\<close>

theorem scl_negative_operand_failing_input:
  "A (d17b_exec_control scl_state (ENCODE_INSTR 1 0 0 0 1)) = 0x005000"
  by (simp add: scl_state_def example_defs d17b_exec_control_def GET_OPCODE_def
      GET_SECTOR_def GET_CHANNEL_def to_int16_def Let_def)

text \<open>
  C5, evaluated at a failing input. The claim has SMP multiply the two values whose
  sign is bit 23 and whose magnitude is bits 22..14 of \<open>A\<close> and of the operand. With
  \<open>A = 0x80C000\<close> (the value \<open>-3\<close>) and operand \<open>0x004000\<close> (the value \<open>+1\<close>) the
  product is \<open>-3\<close>, so \<open>A = 0x800000\<close> and \<open>L = 3\<close>; the code leaves \<open>A = 0x800000\<close>
  and \<open>L = 0x3FD\<close>, the product \<open>-1021\<close>.
\<close>

theorem smp_negative_failing_input:
  "A (d17b_exec_arithmetic smp_state (ENCODE_INSTR 4 0 0 0 1)) = 0x800000
   \<and> L (d17b_exec_arithmetic smp_state (ENCODE_INSTR 4 0 0 0 1)) = 0x3FD"
  by (simp add: smp_state_def example_defs d17b_exec_arithmetic_def GET_OPCODE_def
      GET_FLAG_def GET_SECTOR_def GET_CHANNEL_def d17b_multiply_def to_signed_def Let_def)

text \<open>
  C6. When DIV does not set the error latch, that is when the divisor's magnitude is
  not zero and the quotient's magnitude is at most \<open>2 ^ 23 - 1\<close> (by
  \<open>divide_error_latch\<close> these are exactly the cases), the magnitudes satisfy
  \<open>|A_pre| * 2 ^ 23 + |L_pre| = |A_post| * |divisor| + |L_post|\<close> and
  \<open>|L_post| < |divisor|\<close>.
\<close>

theorem divide_consistency:
  assumes nz: "magnitude divisor \<noteq> 0"
    and fit: "(magnitude (A cpu) * 2 ^ 23 + magnitude (L cpu)) div magnitude divisor \<le> 2 ^ 23 - 1"
  shows "magnitude (A cpu) * 2 ^ 23 + magnitude (L cpu)
           = magnitude (A (d17b_divide cpu divisor)) * magnitude divisor
             + magnitude (L (d17b_divide cpu divisor))
         \<and> magnitude (L (d17b_divide cpu divisor)) < magnitude divisor"
proof -
  define dividend :: uint64_t
    where "dividend = push_bit 23 (ucast (A cpu AND MAGNITUDE_MASK)) OR ucast (L cpu AND MAGNITUDE_MASK)"
  define dm :: uint64_t where "dm = ucast (divisor AND MAGNITUDE_MASK)"
  define q where "q = dividend div dm"
  define r where "r = dividend mod dm"
  define n where "n = magnitude (A cpu) * 8388608 + magnitude (L cpu)"
  have nz': "divisor AND MAGNITUDE_MASK \<noteq> 0"
    using nz by (simp add: magnitude_eq_0_iff)
  have un: "unat dividend = n"
    by (simp only: dividend_def unat_dividend n_def)
  have ud: "unat dm = magnitude divisor"
    by (simp only: dm_def unat_ucast_mag)
  have uq: "unat q = n div magnitude divisor"
    by (simp add: q_def unat_div_distrib un ud)
  have ur: "unat r = n mod magnitude divisor"
    by (simp add: r_def unat_mod_distrib un ud)
  have qfit: "unat q < 8388608"
    using fit by (simp add: uq n_def)
  then have qle: "\<not> 8388607 < q"
    by (simp add: word_less_nat_alt)
  have rlt: "unat r < magnitude divisor"
    using nz by (simp add: ur)
  then have rfit: "unat r < 8388608"
    using magnitude_less[of divisor] by simp
  have A': "magnitude (A (d17b_divide cpu divisor)) = magnitude (ucast q AND MAGNITUDE_MASK)"
    using nz' qle
    by (simp add: d17b_divide_def Let_def magnitude_or_sign flip: dividend_def dm_def q_def r_def)
  have L': "magnitude (L (d17b_divide cpu divisor)) = magnitude (ucast r AND MAGNITUDE_MASK)"
    using nz' qle
    by (simp add: d17b_divide_def Let_def magnitude_or_sign flip: dividend_def dm_def q_def r_def)
  have Aq: "magnitude (A (d17b_divide cpu divisor)) = n div magnitude divisor"
    by (simp only: A' magnitude_ucast_down[OF qfit] uq)
  have Lr: "magnitude (L (d17b_divide cpu divisor)) = n mod magnitude divisor"
    by (simp only: L' magnitude_ucast_down[OF rfit] ur)
  show ?thesis
    using nz by (simp add: Aq Lr n_def)
qed

theorem divide_consistency_witness:
  "magnitude 4 \<noteq> 0
   \<and> (magnitude (A (memset_zero\<lparr>L := 24\<rparr>)) * 2 ^ 23 + magnitude (L (memset_zero\<lparr>L := 24\<rparr>)))
        div magnitude 4 \<le> 2 ^ 23 - 1
   \<and> A (d17b_divide (memset_zero\<lparr>L := 24\<rparr>) 4) = 6
   \<and> L (d17b_divide (memset_zero\<lparr>L := 24\<rparr>) 4) = 0
   \<and> magnitude (A (memset_zero\<lparr>L := 24\<rparr>)) * 2 ^ 23 + magnitude (L (memset_zero\<lparr>L := 24\<rparr>))
       = magnitude (A (d17b_divide (memset_zero\<lparr>L := 24\<rparr>) 4)) * magnitude 4
         + magnitude (L (d17b_divide (memset_zero\<lparr>L := 24\<rparr>) 4))
   \<and> magnitude (L (d17b_divide (memset_zero\<lparr>L := 24\<rparr>) 4)) < magnitude 4"
proof -
  have h1: "magnitude 4 \<noteq> 0" by (simp add: magnitude_def)
  have h2: "(magnitude (A (memset_zero\<lparr>L := 24\<rparr>)) * 2 ^ 23 + magnitude (L (memset_zero\<lparr>L := 24\<rparr>)))
        div magnitude 4 \<le> 2 ^ 23 - 1"
    by (simp add: magnitude_def memset_zero_def)
  have a: "A (d17b_divide (memset_zero\<lparr>L := 24\<rparr>) 4) = 6"
    by (simp add: d17b_divide_def memset_zero_def Let_def)
  have l: "L (d17b_divide (memset_zero\<lparr>L := 24\<rparr>) 4) = 0"
    by (simp add: d17b_divide_def memset_zero_def Let_def)
  show ?thesis
    using divide_consistency[OF h1 h2] h1 h2 a l by simp
qed



text \<open>
  C8. For all words \<open>a\<close> and \<open>b\<close>, the signed reading of \<open>d17b_add_24bit a b\<close> is the
  sum of the signed readings clamped to \<open>[-(2 ^ 23 - 1), 2 ^ 23 - 1]\<close>, and that of
  \<open>d17b_sub_24bit a b\<close> is the clamped difference; both lie in that range, so neither
  wraps around.
\<close>

theorem add_sub_saturate:
  "to_signed (d17b_add_24bit a b)
     = max (- (2 ^ 23 - 1)) (min (2 ^ 23 - 1) (to_signed a + to_signed b))
   \<and> to_signed (d17b_sub_24bit a b)
     = max (- (2 ^ 23 - 1)) (min (2 ^ 23 - 1) (to_signed a - to_signed b))
   \<and> - (2 ^ 23 - 1) \<le> to_signed (d17b_add_24bit a b)
   \<and> to_signed (d17b_add_24bit a b) \<le> 2 ^ 23 - 1
   \<and> - (2 ^ 23 - 1) \<le> to_signed (d17b_sub_24bit a b)
   \<and> to_signed (d17b_sub_24bit a b) \<le> 2 ^ 23 - 1"
  using to_signed_bounds[of "d17b_add_24bit a b"] to_signed_bounds[of "d17b_sub_24bit a b"]
  by (simp add: d17b_add_24bit_def d17b_sub_24bit_def Let_def to_signed_from_signed)

theorem add_sub_saturate_witness:
  "to_signed (d17b_add_24bit 0x7FFFFF 1) = 2 ^ 23 - 1
   \<and> to_signed (d17b_sub_24bit 0x800005 0x7FFFFE) = - (2 ^ 23 - 1)"
  using add_sub_saturate[of "0x7FFFFF" 1] add_sub_saturate[of "0x800005" "0x7FFFFE"]
  by (simp add: to_signed_def)

text \<open>
  C9. When all magnitude bits of the divisor are zero, whatever its sign bit,
  \<open>d17b_divide\<close> sets the error latch and changes no other field of the state.
\<close>

theorem divide_by_zero_atomic:
  "divisor AND MAGNITUDE_MASK = 0 \<Longrightarrow> d17b_divide cpu divisor = cpu\<lparr>error_latch := True\<rparr>"
  by (simp add: d17b_divide_def)

theorem divide_by_zero_atomic_witness:
  "(0x800000 :: uint32_t) AND MAGNITUDE_MASK = 0
   \<and> d17b_divide (memset_zero\<lparr>A := 5, L := 7\<rparr>) 0x800000
       = memset_zero\<lparr>A := 5, L := 7, error_latch := True\<rparr>"
proof -
  have h: "(0x800000 :: uint32_t) AND MAGNITUDE_MASK = 0" by simp
  show ?thesis using divide_by_zero_atomic[OF h, of "memset_zero\<lparr>A := 5, L := 7\<rparr>"] h by simp
qed

text \<open>
  C10. In a state that is not halted, a step that executes HPR (primary opcode 8,
  sub-opcode \<open>(S >> 1) & 0x3F = 0x09\<close>) returns 0 and changes the state exactly as
  follows: the halted latch is set, \<open>I\<close> becomes the channel of the old \<open>I\<close> with the
  sector \<open>Sp\<close>, \<open>current_sector\<close> advances by one modulo 128, \<open>cycle_count\<close> is
  incremented, and \<open>fine_countdown\<close> is decremented if the countdown is enabled and
  the counter is positive. The halt only prevents later steps: a further call of
  \<open>d17b_step\<close> returns \<open>-1\<close> and leaves the state as it is.
\<close>

theorem hpr_step:
  assumes "\<not> halted cpu"
    and "GET_OPCODE (fetch cpu) = 8"
    and "drop_bit 1 (ucast (GET_SECTOR (fetch cpu)) :: uint8_t) AND 0x3F = 0x09"
  shows "d17b_step cpu =
      (0, cpu\<lparr>I := push_bit 9 (drop_bit 9 (I cpu) AND 0x3F) OR push_bit 2 (GET_SP (fetch cpu)),
               current_sector := (current_sector cpu + 1) AND 0x7F,
               cycle_count := cycle_count cpu + 1,
               halted := True,
               fine_countdown :=
                 (if countdown_enabled cpu \<and> fine_countdown cpu > 0
                  then fine_countdown cpu - 1 else fine_countdown cpu)\<rparr>)
    \<and> unat (current_sector (snd (d17b_step cpu))) = (unat (current_sector cpu) + 1) mod 128
    \<and> d17b_step (snd (d17b_step cpu)) = (- 1, snd (d17b_step cpu))"
proof -
  have disp: "step_dispatch cpu (fetch cpu) = (False, cpu\<lparr>halted := True\<rparr>)"
    using assms(2,3) by (simp add: step_dispatch_def d17b_exec_special_def)
  have st: "d17b_step cpu =
      (0, cpu\<lparr>I := push_bit 9 (drop_bit 9 (I cpu) AND 0x3F) OR push_bit 2 (GET_SP (fetch cpu)),
               current_sector := (current_sector cpu + 1) AND 0x7F,
               cycle_count := cycle_count cpu + 1,
               halted := True,
               fine_countdown :=
                 (if countdown_enabled cpu \<and> fine_countdown cpu > 0
                  then fine_countdown cpu - 1 else fine_countdown cpu)\<rparr>)"
    using assms(1) by (simp add: d17b_step_unfold disp step_advance_def Let_def next_I_eq)
  have "((w + 1) AND 0x7F) = take_bit 7 (w + 1)" for w :: uint32_t
  proof -
    have "(0x7F :: uint32_t) = mask 7" by (simp add: mask_eq_exp_minus_1)
    then show ?thesis by (simp add: take_bit_eq_mask)
  qed
  then have "unat ((w + 1) AND 0x7F) = (unat w + 1) mod 128" for w :: uint32_t
    by (simp add: unsigned_take_bit_eq take_bit_eq_mod unat_word_ariths mod_mod_cancel)
  then have cs: "unat (current_sector (snd (d17b_step cpu)))
      = (unat (current_sector cpu) + 1) mod 128"
    by (simp add: st)
  have "halted (snd (d17b_step cpu))"
    by (simp add: st)
  then have again: "d17b_step (snd (d17b_step cpu)) = (- 1, snd (d17b_step cpu))"
    by (simp add: d17b_step_def)
  show ?thesis
    using st cs again by (intro conjI)
qed

theorem hpr_step_witness:
  "\<not> halted hpr_state \<and> GET_OPCODE (fetch hpr_state) = 8
   \<and> drop_bit 1 (ucast (GET_SECTOR (fetch hpr_state)) :: uint8_t) AND 0x3F = 0x09
   \<and> d17b_step hpr_state =
       (0, hpr_state\<lparr>I := 24, current_sector := 1, cycle_count := 1, halted := True,
                     fine_countdown := 2\<rparr>)
   \<and> d17b_step (hpr_state\<lparr>I := 24, current_sector := 1, cycle_count := 1, halted := True,
                               fine_countdown := 2\<rparr>)
       = (- 1, hpr_state\<lparr>I := 24, current_sector := 1, cycle_count := 1, halted := True,
                            fine_countdown := 2\<rparr>)"
proof -
  have f: "fetch hpr_state = 0x830048"
    by (simp add: hpr_state_def example_defs)
  have h1: "\<not> halted hpr_state" by (simp add: hpr_state_def example_defs)
  have h2: "GET_OPCODE (fetch hpr_state) = 8" by (simp add: f GET_OPCODE_def)
  have h3: "drop_bit 1 (ucast (GET_SECTOR (fetch hpr_state)) :: uint8_t) AND 0x3F = 0x09"
    by (simp add: f GET_SECTOR_def)
  have v: "I hpr_state = 20" "countdown_enabled hpr_state" "fine_countdown hpr_state = 3"
    "current_sector hpr_state = 0" "cycle_count hpr_state = 0"
    by (simp_all add: hpr_state_def example_defs)
  let ?s = "hpr_state\<lparr>I := 24, current_sector := 1, cycle_count := 1, halted := True,
                      fine_countdown := 2\<rparr>"
  have s1: "d17b_step hpr_state = (0, ?s)"
    using hpr_step[OF h1 h2 h3, THEN conjunct1] by (simp add: f v GET_SP_def)
  have s2: "d17b_step ?s = (- 1, ?s)"
    using hpr_step[OF h1 h2 h3, THEN conjunct2, THEN conjunct2] by (simp add: s1)
  show ?thesis
    using h1 h2 h3 s1 s2 by (intro conjI)
qed

end
